theory Spec2Isabelle
  imports Main
begin

section \<open>The referral ledger of main.js\<close>

text \<open>
  The bot keeps three arrays in \<^verbatim>\<open>db.data\<close> (users, pendingPurchases, withdraws) and a
  process-wide table \<^verbatim>\<open>userSessions\<close>. Every ledger function of main.js is an async function
  that reloads the snapshot, mutates objects of the arrays in place and saves. The model
  passes the snapshot explicitly: a function takes the snapshot and returns the new one
  together with its JavaScript return value.

  Objects are mutated through references (\<^verbatim>\<open>ref.balance = ...\<close>, \<^verbatim>\<open>w.status = ...\<close>).
  Every element of the three arrays is an object of its own, so a reference that a
  function obtains from the arrays after its \<^verbatim>\<open>db.read()\<close> is modelled by the position in the
  array, and an assignment through it by a list update at that position. An object that
  a caller passes in was fetched before the function's \<^verbatim>\<open>db.read()\<close>, which replaces
  \<^verbatim>\<open>db.data\<close>; such an object is a value of its own, passed in and returned next to the
  snapshot.

  Values the source draws from the environment are arguments of the model: the result of
  \<^verbatim>\<open>nanoid(n)\<close> and the text of \<^verbatim>\<open>new Date().toISOString()\<close> (one instant per call of a
  ledger function). Messages sent through Telegram are best effort in the source (every
  send sits in a try/catch that ignores the failure) and change no ledger state; the ledger
  functions of the model leave them out.
\<close>

subsection \<open>JavaScript numbers and strings\<close>

text \<open>
  A balance is a JavaScript number, an IEEE double. The ledger only adds, subtracts and
  compares integers, so a number is modelled as an integer, \<^verbatim>\<open>NaN\<close> or an infinity, and a
  sum is rounded as the double sum is: to 53 significant bits, ties to the even neighbour,
  and to an infinity from \<open>2^1024\<close> on. \<open>Num n\<close> stands for a double only when \<open>n\<close> is one;
  every result of the arithmetic is. \<^verbatim>\<open>x + undefined\<close> is \<^verbatim>\<open>NaN\<close>, every comparison with
  \<^verbatim>\<open>NaN\<close> is false and \<^verbatim>\<open>NaN || 0\<close> is 0.
\<close>

datatype jsnum = Num int | NaN | Infinity | NegInfinity

text \<open>The number of binary digits of a natural number.\<close>

fun bit_length :: "nat \<Rightarrow> nat" where
  "bit_length n = (if n = 0 then 0 else Suc (bit_length (n div 2)))"

declare bit_length.simps [simp del]

text \<open>The double nearest to an integer: the integer itself when it has at most 53 binary
  digits; otherwise its leading 53 digits \<open>q\<close>, rounded up when the rest \<open>r\<close> is above half a
  unit of the last kept digit, or is half a unit and \<open>q\<close> is odd.\<close>

definition round_double :: "int \<Rightarrow> jsnum" where
  "round_double x =
     (let m = nat \<bar>x\<bar>; k = bit_length m in
      if k \<le> 53 then Num x
      else
        let s = k - 53;
            q = m div 2 ^ s;
            r = m mod 2 ^ s;
            q' = (if 2 * r > 2 ^ s \<or> (2 * r = 2 ^ s \<and> odd q) then q + 1 else q);
            v = int (q' * 2 ^ s)
        in if v \<ge> 2 ^ 1024 then (if x < 0 then NegInfinity else Infinity)
           else Num (if x < 0 then - v else v))"

text \<open>\<^verbatim>\<open>Number.MAX_SAFE_INTEGER\<close>: up to it, in absolute value, integer sums are exact.\<close>

definition MAX_SAFE_INTEGER :: int where
  "MAX_SAFE_INTEGER = 2 ^ 53 - 1"

text \<open>\<^verbatim>\<open>x || 0\<close> on a number: 0 and NaN are falsy.\<close>

fun or_zero :: "jsnum \<Rightarrow> jsnum" where
  "or_zero NaN = Num 0"
| "or_zero x = x"

text \<open>\<^verbatim>\<open>a + b\<close>, \<^verbatim>\<open>-a\<close>, \<^verbatim>\<open>a - b\<close>, \<^verbatim>\<open>a > b\<close> and \<^verbatim>\<open>a < b\<close> on numbers.\<close>

fun js_add :: "jsnum \<Rightarrow> jsnum \<Rightarrow> jsnum" where
  "js_add NaN b = NaN"
| "js_add a NaN = NaN"
| "js_add (Num a) (Num b) = round_double (a + b)"
| "js_add Infinity NegInfinity = NaN"
| "js_add NegInfinity Infinity = NaN"
| "js_add Infinity b = Infinity"
| "js_add a Infinity = Infinity"
| "js_add NegInfinity b = NegInfinity"
| "js_add a NegInfinity = NegInfinity"

fun js_neg :: "jsnum \<Rightarrow> jsnum" where
  "js_neg (Num a) = Num (- a)"
| "js_neg NaN = NaN"
| "js_neg Infinity = NegInfinity"
| "js_neg NegInfinity = Infinity"

definition js_sub :: "jsnum \<Rightarrow> jsnum \<Rightarrow> jsnum" where
  "js_sub a b = js_add a (js_neg b)"

fun js_gt :: "jsnum \<Rightarrow> jsnum \<Rightarrow> bool" where
  "js_gt NaN b = False"
| "js_gt a NaN = False"
| "js_gt (Num a) (Num b) = (a > b)"
| "js_gt Infinity b = (b \<noteq> Infinity)"
| "js_gt a NegInfinity = (a \<noteq> NegInfinity)"
| "js_gt a b = False"

definition js_lt :: "jsnum \<Rightarrow> jsnum \<Rightarrow> bool" where
  "js_lt a b = js_gt b a"

text \<open>\<^verbatim>\<open>a % b\<close> on integers: the remainder takes the sign of the dividend.\<close>

definition js_rem :: "int \<Rightarrow> int \<Rightarrow> int" where
  "js_rem a b = (if a < 0 then - ((- a) mod \<bar>b\<bar>) else a mod \<bar>b\<bar>)"

text \<open>A string that may be \<^verbatim>\<open>null\<close> or \<^verbatim>\<open>undefined\<close>; the empty string is falsy too.\<close>

fun truthy :: "string option \<Rightarrow> bool" where
  "truthy None = False"
| "truthy (Some s) = (s \<noteq> [])"

text \<open>\<^verbatim>\<open>Array.prototype.find\<close>, returning the position of the first match (the reference
  to the object found) instead of the object.\<close>

fun find_ref :: "('a \<Rightarrow> bool) \<Rightarrow> 'a list \<Rightarrow> nat option" where
  "find_ref P [] = None"
| "find_ref P (x # xs) = (if P x then Some 0 else map_option Suc (find_ref P xs))"

subsection \<open>The data of db.json\<close>

record user =
  u_id :: int
  name :: string
  referralCode :: string
  referredBy :: "string option"
  balance :: jsnum
  package :: "string option"
  createdAt :: string
  packageConfirmedAt :: "string option"

record pendingPurchase =
  p_id :: string
  p_userId :: int
  p_package :: string
  p_note :: string
  p_createdAt :: string

datatype status = Pending | Approved | Rejected

record withdraw =
  w_id :: string
  w_userId :: int
  amount :: jsnum
  paymentMethod :: "string option"
  status :: status
  w_note :: "string option"
  w_createdAt :: string
  updatedAt :: string

record db =
  users :: "user list"
  pendingPurchases :: "pendingPurchase list"
  withdraws :: "withdraw list"

text \<open>The default data given to \<^verbatim>\<open>new Low(adapter, ...)\<close>.\<close>

definition default_db :: db where
  "default_db = \<lparr>users = [], pendingPurchases = [], withdraws = []\<rparr>"

text \<open>
  Modelled from the spec: \<^verbatim>\<open>saveDB\<close> is called by main.js but defined nowhere in it, and
  \<^verbatim>\<open>db.read\<close> belongs to the lowdb library. The spec describes the record store as
  "loaded before each logical operation and persisted after each mutation": a load gives
  the snapshot last persisted, so both are the identity on the value of the snapshot. The
  load builds the objects of \<^verbatim>\<open>db.data\<close> anew, so an object fetched before it is no longer
  one of the stored ones.
\<close>

definition db_read :: "db \<Rightarrow> db" where
  "db_read d = d"

definition saveDB :: "db \<Rightarrow> db" where
  "saveDB d = d"

text \<open>The results \<^verbatim>\<open>{ ok: false, error: ... }\<close> of the ledger functions, one constructor for
  each message of the source, and \<^verbatim>\<open>TypeError\<close> for a property read on \<^verbatim>\<open>undefined\<close>:
  "Invalid amount", "Insufficient balance", "Amount must end with 00", "User not found",
  "Invalid package", "Withdraw request not found", "Not pending".\<close>

datatype error =
  InvalidAmount | InsufficientBalance | BadAmountFormat
  | UserNotFound | InvalidPackage
  | RequestNotFound | RequestNotPending
  | TypeError

subsection \<open>Packages\<close>

text \<open>
  \<^verbatim>\<open>PACKAGES\<close> is an object literal, so \<^verbatim>\<open>PACKAGES[key]\<close> finds the three own properties and,
  for any other key, whatever \<^verbatim>\<open>Object.prototype\<close> has under that name. Those inherited
  values are functions (or the prototype itself, for \<^verbatim>\<open>__proto__\<close>): they are truthy, and
  their \<^verbatim>\<open>commission\<close> is \<^verbatim>\<open>undefined\<close>.
\<close>

definition PACKAGES :: "(string \<times> (int \<times> int)) list" where
  "PACKAGES = [(''Basic'', (1500, 200)), (''Premium'', (3000, 400)), (''VIP'', (3500, 500))]"

definition object_prototype_keys :: "string list" where
  "object_prototype_keys =
     [''constructor'', ''hasOwnProperty'', ''isPrototypeOf'', ''propertyIsEnumerable'',
      ''toLocaleString'', ''toString'', ''valueOf'', ''__proto__'',
      ''__defineGetter__'', ''__defineSetter__'', ''__lookupGetter__'', ''__lookupSetter__'']"

datatype property = Own int int | Inherited | Undefined

definition PACKAGES_get :: "string \<Rightarrow> property" where
  "PACKAGES_get key =
     (case map_of PACKAGES key of
        Some (price, commission) \<Rightarrow> Own price commission
      | None \<Rightarrow> if key \<in> set object_prototype_keys then Inherited else Undefined)"

text \<open>\<^verbatim>\<open>!PACKAGES[packageType]\<close> and \<^verbatim>\<open>PACKAGES[packageType].commission\<close> (\<open>None\<close> is
  \<^verbatim>\<open>undefined\<close>).\<close>

fun is_falsy :: "property \<Rightarrow> bool" where
  "is_falsy Undefined = True"
| "is_falsy _ = False"

fun commission_of :: "property \<Rightarrow> int option" where
  "commission_of (Own price commission) = Some commission"
| "commission_of _ = None"

text \<open>\<^verbatim>\<open>(ref.balance || 0) + PACKAGES[packageType].commission\<close>.\<close>

fun credit :: "jsnum \<Rightarrow> int option \<Rightarrow> jsnum" where
  "credit b (Some c) = js_add (or_zero b) (Num c)"
| "credit b None = NaN"

subsection \<open>Helpers\<close>

definition findUserById :: "db \<Rightarrow> int \<Rightarrow> nat option" where
  "findUserById d i = find_ref (\<lambda>u. u_id u = i) (users d)"

definition findUserByReferral :: "db \<Rightarrow> string \<Rightarrow> nat option" where
  "findUserByReferral d code = find_ref (\<lambda>u. referralCode u = code) (users d)"

subsection \<open>The ledger functions\<close>

text \<open>
  \<^verbatim>\<open>createWithdrawRequestDynamic(user, amount, paymentMethod)\<close>. The argument \<open>user\<close> is the
  object the caller holds. The function starts with \<^verbatim>\<open>db.read()\<close>, so the request is pushed
  to the snapshot just loaded, while \<^verbatim>\<open>user.balance -= amount\<close> is an assignment to the
  caller's object, which is not in that snapshot: the model returns the snapshot, the
  caller's object and the result. \<open>amount\<close> is an integer (the caller parses it and refuses
  NaN), so \<^verbatim>\<open>!amount\<close> is \<open>amount = 0\<close>. \<open>rid\<close> is the result of \<^verbatim>\<open>nanoid(8)\<close>.
\<close>

definition createWithdrawRequestDynamic ::
  "db \<Rightarrow> user \<Rightarrow> int \<Rightarrow> string \<Rightarrow> string \<Rightarrow> string \<Rightarrow> db \<times> user \<times> (error + withdraw)" where
  "createWithdrawRequestDynamic d0 user amnt pm rid now =
     (let d = db_read d0 in
      if amnt = 0 \<or> amnt \<le> 0 then (d, user, Inl InvalidAmount)
      else if js_gt (Num amnt) (balance user) then (d, user, Inl InsufficientBalance)
      else if js_rem amnt 100 \<noteq> 0 then (d, user, Inl BadAmountFormat)
      else
        let request = \<lparr>w_id = rid, w_userId = u_id user, amount = Num amnt,
                         paymentMethod = Some pm, status = Pending, w_note = None,
                         w_createdAt = now, updatedAt = now\<rparr>;
            ws = withdraws d @ [request];
            user' = user\<lparr>balance := js_sub (balance user) (Num amnt)\<rparr>
        in (saveDB (d\<lparr>withdraws := ws\<rparr>), user', Inr request))"

text \<open>The \<^verbatim>\<open>from\<close> of a Telegram context: the id, and the two names that may be missing.\<close>

record ctx =
  from_id :: int
  first_name :: "string option"
  username :: "string option"

text \<open>\<^verbatim>\<open>ctx.from.first_name || `${ctx.from.username || "User"}`\<close>.\<close>

definition display_name :: "ctx \<Rightarrow> string" where
  "display_name c =
     (if truthy (first_name c) then the (first_name c)
      else if truthy (username c) then the (username c) else ''User'')"

text \<open>
  \<^verbatim>\<open>registerUserIfNotExists(ctx, referralCode = null)\<close>; \<open>code\<close> is the result of
  \<^verbatim>\<open>nanoid(6)\<close>. It returns the reference to the user. The lookup of the referrer only
  decides whether a message is sent.
\<close>

definition registerUserIfNotExists ::
  "db \<Rightarrow> ctx \<Rightarrow> string option \<Rightarrow> string \<Rightarrow> string \<Rightarrow> db \<times> nat" where
  "registerUserIfNotExists d0 c referral code now =
     (let d = db_read d0 in
      case findUserById d (from_id c) of
        Some user \<Rightarrow> (d, user)
      | None \<Rightarrow>
          let user = \<lparr>u_id = from_id c, name = display_name c, referralCode = code,
                      referredBy = (if truthy referral then referral else None),
                      balance = Num 0, package = None, createdAt = now,
                      packageConfirmedAt = None\<rparr>
          in (saveDB (d\<lparr>users := users d @ [user]\<rparr>), length (users d)))"

text \<open>\<^verbatim>\<open>confirmPurchase(userId, packageType)\<close>, returning the reference to the user.\<close>

definition confirmPurchase :: "db \<Rightarrow> int \<Rightarrow> string \<Rightarrow> string \<Rightarrow> db \<times> (error + nat)" where
  "confirmPurchase d0 userId packageType now =
     (let d = db_read d0 in
      case findUserById d userId of
        None \<Rightarrow> (d, Inl UserNotFound)
      | Some user \<Rightarrow>
          if is_falsy (PACKAGES_get packageType) then (d, Inl InvalidPackage)
          else
            let us1 = (users d)[user := (users d ! user)
                        \<lparr>package := Some packageType, packageConfirmedAt := Some now\<rparr>];
                us2 =
                  (if truthy (referredBy (us1 ! user)) then
                     (case find_ref (\<lambda>u. referralCode u = the (referredBy (us1 ! user))) us1 of
                        Some ref \<Rightarrow>
                          us1[ref := (us1 ! ref)
                            \<lparr>balance := credit (balance (us1 ! ref))
                                          (commission_of (PACKAGES_get packageType))\<rparr>]
                      | None \<Rightarrow> us1)
                   else us1);
                pp = filter (\<lambda>p. \<not> (p_userId p = userId \<and> p_package p = packageType))
                       (pendingPurchases d)
            in (saveDB (d\<lparr>users := us2, pendingPurchases := pp\<rparr>), Inr user))"

text \<open>\<^verbatim>\<open>createWithdrawRequest(user)\<close>, the variant that withdraws the whole balance. As
  above, \<open>user\<close> is the caller's object, and \<^verbatim>\<open>user.balance = 0\<close> is an assignment to it.\<close>

definition createWithdrawRequest ::
  "db \<Rightarrow> user \<Rightarrow> string \<Rightarrow> string \<Rightarrow> db \<times> user \<times> withdraw" where
  "createWithdrawRequest d0 user rid now =
     (let d = db_read d0;
          request = \<lparr>w_id = rid, w_userId = u_id user, amount = balance user,
                       paymentMethod = None, status = Pending, w_note = None,
                       w_createdAt = now, updatedAt = now\<rparr>;
          ws = withdraws d @ [request];
          user' = user\<lparr>balance := Num 0\<rparr>
      in (saveDB (d\<lparr>withdraws := ws\<rparr>), user', request))"

text \<open>\<^verbatim>\<open>approveWithdrawRequest(withdrawId, note)\<close>.\<close>

definition approveWithdrawRequest ::
  "db \<Rightarrow> string \<Rightarrow> string \<Rightarrow> string \<Rightarrow> db \<times> (error + withdraw)" where
  "approveWithdrawRequest d0 withdrawId note now =
     (let d = db_read d0 in
      case find_ref (\<lambda>x. w_id x = withdrawId) (withdraws d) of
        None \<Rightarrow> (d, Inl RequestNotFound)
      | Some k \<Rightarrow>
          if status (withdraws d ! k) \<noteq> Pending then (d, Inl RequestNotPending)
          else
            let w = (withdraws d ! k)\<lparr>status := Approved, updatedAt := now, w_note := Some note\<rparr>
            in (saveDB (d\<lparr>withdraws := (withdraws d)[k := w]\<rparr>), Inr w))"

text \<open>\<^verbatim>\<open>rejectWithdrawRequest(withdrawId, reason)\<close>.\<close>

definition rejectWithdrawRequest ::
  "db \<Rightarrow> string \<Rightarrow> string \<Rightarrow> string \<Rightarrow> db \<times> (error + withdraw)" where
  "rejectWithdrawRequest d0 withdrawId reason now =
     (let d = db_read d0 in
      case find_ref (\<lambda>x. w_id x = withdrawId) (withdraws d) of
        None \<Rightarrow> (d, Inl RequestNotFound)
      | Some k \<Rightarrow>
          if status (withdraws d ! k) \<noteq> Pending then (d, Inl RequestNotPending)
          else
            let w = (withdraws d ! k)\<lparr>status := Rejected, updatedAt := now, w_note := Some reason\<rparr>;
                us =
                  (case findUserById d (w_userId w) of
                     Some user \<Rightarrow>
                       (users d)[user := (users d ! user)
                         \<lparr>balance := js_add (or_zero (balance (users d ! user))) (amount w)\<rparr>]
                   | None \<Rightarrow> users d)
            in (saveDB (d\<lparr>users := us, withdraws := (withdraws d)[k := w]\<rparr>), Inr w))"

text \<open>\<^verbatim>\<open>addPendingPurchase(userId, packageType, note)\<close>; \<open>pid\<close> is the result of
  \<^verbatim>\<open>nanoid(8)\<close>.\<close>

definition addPendingPurchase ::
  "db \<Rightarrow> int \<Rightarrow> string \<Rightarrow> string \<Rightarrow> string \<Rightarrow> string \<Rightarrow> db \<times> (error + pendingPurchase)" where
  "addPendingPurchase d0 userId packageType note pid now =
     (let d = db_read d0 in
      case findUserById d userId of
        None \<Rightarrow> (d, Inl UserNotFound)
      | Some user \<Rightarrow>
          if is_falsy (PACKAGES_get packageType) then (d, Inl InvalidPackage)
          else
            let entry = \<lparr>p_id = pid, p_userId = userId, p_package = packageType,
                         p_note = note, p_createdAt = now\<rparr>
            in (saveDB (d\<lparr>pendingPurchases := pendingPurchases d @ [entry]\<rparr>), Inr entry))"

subsection \<open>Strings of the withdraw session\<close>

text \<open>
  The session handler reads its input with \<^verbatim>\<open>trim\<close>, \<^verbatim>\<open>toLowerCase\<close>, \<^verbatim>\<open>includes\<close> and
  \<^verbatim>\<open>parseInt(text, 10)\<close>. The model covers ASCII: the white space characters are space and
  the control characters 9 to 13, and only the letters A to Z change case.
\<close>

definition is_space :: "char \<Rightarrow> bool" where
  "is_space c = (c \<in> set [CHR '' '', CHR 0x09, CHR 0x0A, CHR 0x0B, CHR 0x0C, CHR 0x0D])"

definition trim :: "string \<Rightarrow> string" where
  "trim s = rev (dropWhile is_space (rev (dropWhile is_space s)))"

definition lower_char :: "char \<Rightarrow> char" where
  "lower_char c =
     (case map_of (zip ''ABCDEFGHIJKLMNOPQRSTUVWXYZ'' ''abcdefghijklmnopqrstuvwxyz'') c of
        Some l \<Rightarrow> l
      | None \<Rightarrow> c)"

definition toLowerCase :: "string \<Rightarrow> string" where
  "toLowerCase s = map lower_char s"

fun starts_with :: "string \<Rightarrow> string \<Rightarrow> bool" where
  "starts_with s [] = True"
| "starts_with [] (p # ps) = False"
| "starts_with (c # cs) (p # ps) = (c = p \<and> starts_with cs ps)"

fun str_includes :: "string \<Rightarrow> string \<Rightarrow> bool" where
  "str_includes [] p = (p = [])"
| "str_includes (c # cs) p = (starts_with (c # cs) p \<or> str_includes cs p)"

definition digit_of :: "char \<Rightarrow> int option" where
  "digit_of c = map_of (zip ''0123456789'' [0, 1, 2, 3, 4, 5, 6, 7, 8, 9]) c"

definition is_digit :: "char \<Rightarrow> bool" where
  "is_digit c = (digit_of c \<noteq> None)"

definition digits_value :: "string \<Rightarrow> int" where
  "digits_value ds = foldl (\<lambda>acc c. 10 * acc + the (digit_of c)) 0 ds"

text \<open>\<^verbatim>\<open>parseInt(text, 10)\<close>: leading white space is skipped, a sign is read, then the
  longest run of decimal digits; with no digit the result is NaN, otherwise the double
  nearest to the value of the digits.\<close>

definition parseInt :: "string \<Rightarrow> jsnum" where
  "parseInt s =
     (let t = dropWhile is_space s;
          neg = starts_with t ''-'';
          u = (if starts_with t ''-'' \<or> starts_with t ''+'' then tl t else t);
          ds = takeWhile is_digit u
      in if ds = [] then NaN
         else round_double (if neg then - digits_value ds else digits_value ds))"

subsection \<open>The withdraw session\<close>

definition MIN_WITHDRAW :: int where
  "MIN_WITHDRAW = 100"

text \<open>An entry of \<^verbatim>\<open>userSessions\<close>: \<^verbatim>\<open>{ action, step, data: { amount } }\<close>, with \<open>s_data\<close>
  being \<open>None\<close> as long as \<^verbatim>\<open>session.data\<close> is not set.\<close>

record session =
  s_action :: string
  s_step :: string
  s_data :: "int option"

record bot =
  data :: db
  userSessions :: "int \<Rightarrow> session option"

text \<open>What a handler answers with \<^verbatim>\<open>ctx.reply\<close>, one constructor for each text.\<close>

datatype reply =
  PleaseStart | MinimumWithdraw | EnterAmount
  | Canceled | UserNotFoundReply
  | InvalidAmountReply | InsufficientBalanceReply | ChooseMethod
  | InvalidMethod | Failed error | Submitted withdraw

text \<open>\<^verbatim>\<open>bot.command("withdraw", ...)\<close> for the sender \<open>uid\<close>.\<close>

definition withdraw_command :: "bot \<Rightarrow> int \<Rightarrow> bot \<times> reply" where
  "withdraw_command b0 uid =
     (let b = b0\<lparr>data := db_read (data b0)\<rparr> in
      case findUserById (data b) uid of
        None \<Rightarrow> (b, PleaseStart)
      | Some user \<Rightarrow>
          if js_lt (or_zero (balance (users (data b) ! user))) (Num MIN_WITHDRAW)
          then (b, MinimumWithdraw)
          else (b\<lparr>userSessions := (userSessions b)
                     (uid \<mapsto> \<lparr>s_action = ''withdraw'', s_step = ''amount'', s_data = None\<rparr>)\<rparr>,
                EnterAmount))"

text \<open>The payment method chosen by the trimmed, lower-cased text.\<close>

definition choose_method :: "string \<Rightarrow> string option" where
  "choose_method t =
     (if str_includes t ''telebirr'' \<or> t = ''1'' then Some ''Telebirr''
      else if str_includes t ''cbe'' \<or> t = ''2'' then Some ''CBE''
      else if str_includes t ''transfer'' \<or> t = ''3'' then Some ''Transfer''
      else None)"

text \<open>\<^verbatim>\<open>bot.on("text", ...)\<close> for the sender \<open>uid\<close> and the message text \<open>msg\<close>; \<open>None\<close> is
  a return without a reply. The handler does not reload the snapshot: \<open>user\<close> is the
  stored object at the time of the message, and that object is what it passes to
  \<^verbatim>\<open>createWithdrawRequestDynamic\<close>. Of the three results of the call the handler keeps the
  snapshot (it is \<^verbatim>\<open>db.data\<close> now) and the request; the object it passed is used for the
  message to the admin only. \<^verbatim>\<open>isNaN(amount) || amount <= 0 || amount % 100 !== 0\<close> holds for
  \<^verbatim>\<open>NaN\<close> and for the infinities, whose remainder is \<^verbatim>\<open>NaN\<close>.\<close>

definition on_text :: "bot \<Rightarrow> int \<Rightarrow> string \<Rightarrow> string \<Rightarrow> string \<Rightarrow> bot \<times> reply option" where
  "on_text b uid msg rid now =
     (case userSessions b uid of
        None \<Rightarrow> (b, None)
      | Some session \<Rightarrow>
          let t = toLowerCase (trim msg) in
          if t = ''cancel'' then (b\<lparr>userSessions := (userSessions b)(uid := None)\<rparr>, Some Canceled)
          else
            (case findUserById (data b) uid of
               None \<Rightarrow> (b, Some UserNotFoundReply)
             | Some user \<Rightarrow>
                 if s_action session = ''withdraw'' then
                   if s_step session = ''amount'' then
                     (case parseInt msg of
                        Num amnt \<Rightarrow>
                          if amnt \<le> 0 \<or> js_rem amnt 100 \<noteq> 0 then (b, Some InvalidAmountReply)
                          else if js_gt (Num amnt) (balance (users (data b) ! user))
                          then (b, Some InsufficientBalanceReply)
                          else (b\<lparr>userSessions := (userSessions b)
                                     (uid \<mapsto> session\<lparr>s_data := Some amnt, s_step := ''method''\<rparr>)\<rparr>,
                                Some ChooseMethod)
                      | _ \<Rightarrow> (b, Some InvalidAmountReply))
                   else if s_step session = ''method'' then
                     (case choose_method t of
                        None \<Rightarrow> (b, Some InvalidMethod)
                      | Some m \<Rightarrow>
                          (case s_data session of
                             None \<Rightarrow> (b, Some (Failed TypeError))
                           | Some amnt \<Rightarrow>
                               (case createWithdrawRequestDynamic (data b)
                                       (users (data b) ! user) amnt m rid now of
                                  (d, user', Inl e) \<Rightarrow> (b\<lparr>data := d\<rparr>, Some (Failed e))
                                | (d, user', Inr request) \<Rightarrow>
                                    (b\<lparr>data := d, userSessions := (userSessions b)(uid := None)\<rparr>,
                                     Some (Submitted request)))))
                   else (b, None)
                 else (b, None)))"

subsection \<open>Sequences of ledger operations\<close>

text \<open>An operation that creates a withdrawal names the stored user by its position: the
  caller fetches that object and calls the ledger function with it.\<close>

datatype operation =
  Register ctx "string option" string string
  | ConfirmPurchase int string string
  | AddPendingPurchase int string string string string
  | CreateWithdrawDynamic nat int string string string
  | CreateWithdraw nat string string
  | Approve string string string
  | Reject string string string

fun apply_operation :: "db \<Rightarrow> operation \<Rightarrow> db" where
  "apply_operation d (Register c referral code now) =
     fst (registerUserIfNotExists d c referral code now)"
| "apply_operation d (ConfirmPurchase userId packageType now) =
     fst (confirmPurchase d userId packageType now)"
| "apply_operation d (AddPendingPurchase userId packageType note pid now) =
     fst (addPendingPurchase d userId packageType note pid now)"
| "apply_operation d (CreateWithdrawDynamic user amnt pm rid now) =
     (if user < length (users d)
      then fst (createWithdrawRequestDynamic d (users d ! user) amnt pm rid now) else d)"
| "apply_operation d (CreateWithdraw user rid now) =
     (if user < length (users d)
      then fst (createWithdrawRequest d (users d ! user) rid now) else d)"
| "apply_operation d (Approve withdrawId note now) =
     fst (approveWithdrawRequest d withdrawId note now)"
| "apply_operation d (Reject withdrawId reason now) =
     fst (rejectWithdrawRequest d withdrawId reason now)"

definition run :: "db \<Rightarrow> operation list \<Rightarrow> db" where
  "run d ops = foldl apply_operation d ops"

subsection \<open>A sample snapshot\<close>

text \<open>Two users, Bob referred by Ann; three pending purchases; one pending and one approved
  withdrawal of Ann's.\<close>

definition ann :: user where
  "ann = \<lparr>u_id = 1, name = ''Ann'', referralCode = ''aaaaaa'', referredBy = None,
           balance = Num 500, package = None, createdAt = ''t0'', packageConfirmedAt = None\<rparr>"

definition bob :: user where
  "bob = \<lparr>u_id = 2, name = ''bob'', referralCode = ''bbbbbb'', referredBy = Some ''aaaaaa'',
           balance = Num 0, package = None, createdAt = ''t1'', packageConfirmedAt = None\<rparr>"

definition sample_pending :: "pendingPurchase list" where
  "sample_pending =
     [\<lparr>p_id = ''p0000001'', p_userId = 2, p_package = ''VIP'', p_note = ''paid'', p_createdAt = ''t2''\<rparr>,
      \<lparr>p_id = ''p0000002'', p_userId = 2, p_package = ''Basic'', p_note = [], p_createdAt = ''t3''\<rparr>,
      \<lparr>p_id = ''p0000003'', p_userId = 1, p_package = ''VIP'', p_note = [], p_createdAt = ''t4''\<rparr>]"

definition sample_withdraws :: "withdraw list" where
  "sample_withdraws =
     [\<lparr>w_id = ''w0000001'', w_userId = 1, amount = Num 200, paymentMethod = Some ''CBE'',
       status = Pending, w_note = None, w_createdAt = ''t5'', updatedAt = ''t5''\<rparr>,
      \<lparr>w_id = ''w0000002'', w_userId = 1, amount = Num 100, paymentMethod = Some ''CBE'',
       status = Approved, w_note = Some ''ok'', w_createdAt = ''t6'', updatedAt = ''t7''\<rparr>]"

definition sample_db :: db where
  "sample_db = \<lparr>users = [ann, bob], pendingPurchases = sample_pending,
                 withdraws = sample_withdraws\<rparr>"

text \<open>A third person, not registered in the sample snapshot.\<close>

definition carol :: ctx where
  "carol = \<lparr>from_id = 3, first_name = Some ''Carol'', username = None\<rparr>"

text \<open>The bot with the sample snapshot and no session.\<close>

definition sample_bot :: bot where
  "sample_bot = \<lparr>data = sample_db, userSessions = Map.empty\<rparr>"

subsection \<open>Well-formed balances\<close>

text \<open>A balance or an amount is in order when it is an integer that is not negative
  (so neither \<^verbatim>\<open>NaN\<close> nor an infinity). A snapshot is in order when every balance and every
  amount of a withdrawal is.\<close>

fun nonneg :: "jsnum \<Rightarrow> bool" where
  "nonneg (Num n) = (0 \<le> n)"
| "nonneg x = False"

definition balances_ok :: "db \<Rightarrow> bool" where
  "balances_ok d =
     (list_all (\<lambda>u. nonneg (balance u)) (users d) \<and>
      list_all (\<lambda>w. nonneg (amount w)) (withdraws d))"

text \<open>An operation that does not confirm a purchase under a key that \<^verbatim>\<open>PACKAGES\<close> only
  inherits.\<close>

fun own_package_key :: "operation \<Rightarrow> bool" where
  "own_package_key (ConfirmPurchase userId packageType now) =
     (PACKAGES_get packageType \<noteq> Inherited)"
| "own_package_key _ = True"

text \<open>The senders of the first two registrations.\<close>

definition ann_ctx :: ctx where
  "ann_ctx = \<lparr>from_id = 1, first_name = Some ''Ann'', username = None\<rparr>"

definition bob_ctx :: ctx where
  "bob_ctx = \<lparr>from_id = 2, first_name = None, username = Some ''bob''\<rparr>"

text \<open>A number that is neither negative nor \<^verbatim>\<open>NaN\<close>, and a snapshot whose balances and
  amounts are such numbers.\<close>

fun not_negative :: "jsnum \<Rightarrow> bool" where
  "not_negative (Num n) = (0 \<le> n)"
| "not_negative Infinity = True"
| "not_negative x = False"

definition never_negative :: "db \<Rightarrow> bool" where
  "never_negative d =
     (list_all (\<lambda>u. not_negative (balance u)) (users d) \<and>
      list_all (\<lambda>w. not_negative (amount w)) (withdraws d))"

section \<open>Properties\<close>

subsection \<open>References found by \<open>find_ref\<close>\<close>

lemma find_ref_Some:
  "find_ref P xs = Some i \<Longrightarrow> i < length xs \<and> P (xs ! i) \<and> (\<forall>j<i. \<not> P (xs ! j))"
proof (induction xs arbitrary: i)
  case Nil
  then show ?case by simp
next
  case (Cons x xs)
  show ?case
  proof (cases "P x")
    case True
    with Cons.prems show ?thesis by simp
  next
    case False
    with Cons.prems obtain k where k: "find_ref P xs = Some k" "i = Suc k"
      by auto
    from Cons.IH [OF k(1)] False k(2) show ?thesis
      by (auto simp: less_Suc_eq_0_disj)
  qed
qed

lemma find_ref_None: "find_ref P xs = None \<longleftrightarrow> (\<forall>x \<in> set xs. \<not> P x)"
  by (induction xs) auto

lemma find_ref_append_Some:
  "find_ref P xs = Some i \<Longrightarrow> find_ref P (xs @ ys) = Some i"
  by (induction xs arbitrary: i) (auto split: if_splits)

lemma find_ref_snoc_None:
  "find_ref P xs = None \<Longrightarrow> find_ref P (xs @ [y]) = (if P y then Some (length xs) else None)"
  by (induction xs) (auto split: if_splits)

subsection \<open>Rounding\<close>

lemma bit_length_le: "n < 2 ^ k \<Longrightarrow> bit_length n \<le> k"
proof (induction k arbitrary: n)
  case 0
  then show ?case by (simp add: bit_length.simps)
next
  case (Suc k)
  show ?case
  proof (cases "n = 0")
    case True
    then show ?thesis by (simp add: bit_length.simps)
  next
    case False
    from Suc.prems have "n div 2 < 2 ^ k" by simp
    from Suc.IH [OF this] False show ?thesis
      by (subst bit_length.simps) simp
  qed
qed

lemma bit_length_gt: "2 ^ k \<le> n \<Longrightarrow> k < bit_length n"
proof (induction k arbitrary: n)
  case 0
  then show ?case by (subst bit_length.simps) simp
next
  case (Suc k)
  then have "2 ^ k \<le> n div 2" by simp
  moreover have "(0::nat) < 2 ^ Suc k" by simp
  with Suc.prems have "n \<noteq> 0" by linarith
  ultimately show ?case
    using Suc.IH [of "n div 2"] by (subst bit_length.simps) simp
qed

lemma bit_length_eq: "2 ^ k \<le> n \<Longrightarrow> n < 2 ^ Suc k \<Longrightarrow> bit_length n = Suc k"
  using bit_length_gt [of k n] bit_length_le [of n "Suc k"] by simp

text \<open>Integers up to \<^verbatim>\<open>Number.MAX_SAFE_INTEGER\<close> are doubles, and a sum within that range
  is exact.\<close>

lemma round_double_exact: "\<bar>x\<bar> \<le> MAX_SAFE_INTEGER \<Longrightarrow> round_double x = Num x"
proof -
  assume "\<bar>x\<bar> \<le> MAX_SAFE_INTEGER"
  then have "nat \<bar>x\<bar> < 2 ^ 53"
    by (simp add: MAX_SAFE_INTEGER_def nat_less_iff)
  then have "bit_length (nat \<bar>x\<bar>) \<le> 53"
    by (rule bit_length_le)
  then show ?thesis
    by (simp add: round_double_def Let_def)
qed

lemma js_add_exact: "\<bar>a + b\<bar> \<le> MAX_SAFE_INTEGER \<Longrightarrow> js_add (Num a) (Num b) = Num (a + b)"
  by (simp add: round_double_exact)

lemma js_sub_exact: "\<bar>a - b\<bar> \<le> MAX_SAFE_INTEGER \<Longrightarrow> js_sub (Num a) (Num b) = Num (a - b)"
  by (simp add: js_sub_def round_double_exact)

text \<open>Beyond it a sum is rounded: the doubles from \<open>2^55\<close> to \<open>2^56\<close> are 8 apart, and a tie
  goes to the even neighbour. From \<open>2^1024\<close> on the sum is an infinity.\<close>

lemma js_add_rounds_500: "js_add (Num (2 ^ 55)) (Num 500) = Num (2 ^ 55 + 496)"
proof -
  have "bit_length (nat \<bar>2 ^ 55 + 500\<bar>) = 56"
    using bit_length_eq [of 55 "nat \<bar>2 ^ 55 + 500\<bar>"] by simp
  then show ?thesis
    by (simp add: round_double_def Let_def)
qed

lemma js_add_rounds_100: "js_add (Num (2 ^ 55)) (Num 100) = Num (2 ^ 55 + 96)"
proof -
  have "bit_length (nat \<bar>2 ^ 55 + 100\<bar>) = 56"
    using bit_length_eq [of 55 "nat \<bar>2 ^ 55 + 100\<bar>"] by simp
  then show ?thesis
    by (simp add: round_double_def Let_def)
qed

lemma js_add_overflow: "js_add (Num (2 ^ 1023)) (Num (2 ^ 1023)) = Infinity"
proof -
  have "bit_length (nat \<bar>2 ^ 1023 + 2 ^ 1023\<bar>) = 1025"
    using bit_length_eq [of 1024 "nat \<bar>2 ^ 1023 + 2 ^ 1023\<bar>"] by simp
  then show ?thesis
    by (simp add: round_double_def Let_def)
qed

subsection \<open>Registration\<close>

lemma find_ref_update:
  "i < length xs \<Longrightarrow> P x = P (xs ! i) \<Longrightarrow> find_ref P (xs[i := x]) = find_ref P xs"
proof (induction xs arbitrary: i)
  case Nil
  then show ?case by simp
next
  case (Cons y ys)
  then show ?case by (cases i) auto
qed

text \<open>
  C9. Registering the same identity twice returns the same user both times: whatever the
  first call did (found the user or created it), the second call returns the same
  reference and the same snapshot, so it creates no user and changes no field of the
  existing record; the referral code, generated code and time passed to the second call
  are ignored.
\<close>

theorem registerUserIfNotExists_idempotent:
  "case registerUserIfNotExists d c referral code now of
     (d1, u1) \<Rightarrow>
       registerUserIfNotExists d1 c referral' code' now' = (d1, u1)
       \<and> findUserById d1 (from_id c) = Some u1"
proof (cases "findUserById d (from_id c)")
  case None
  then show ?thesis
    by (simp add: registerUserIfNotExists_def db_read_def saveDB_def findUserById_def
        find_ref_snoc_None)
next
  case (Some i)
  then show ?thesis
    by (simp add: registerUserIfNotExists_def db_read_def saveDB_def)
qed

theorem registerUserIfNotExists_idempotent_witness:
  "(case registerUserIfNotExists sample_db carol (Some ''aaaaaa'') ''cccccc'' ''t8'' of
     (d1, u1) \<Rightarrow>
       registerUserIfNotExists d1 carol None ''dddddd'' ''t9'' = (d1, u1)
       \<and> u1 = 2 \<and> length (users d1) = 3 \<and> referralCode (users d1 ! u1) = ''cccccc''
       \<and> balance (users d1 ! u1) = Num 0)"
  using registerUserIfNotExists_idempotent [where d = sample_db and c = carol
      and referral = "Some ''aaaaaa''" and code = "''cccccc''" and now = "''t8''"
      and referral' = None and code' = "''dddddd''" and now' = "''t9''"]
  by (simp add: registerUserIfNotExists_def db_read_def saveDB_def findUserById_def
        sample_db_def ann_def bob_def carol_def display_name_def split: prod.splits)

text \<open>
  C8, as the spec states it, fails: a referral code that is the code of no existing user
  is stored all the same. In the empty snapshot no user has the code \<open>zzzzzz\<close>, and the
  user registered with it has \<open>referredBy = zzzzzz\<close>.
\<close>

theorem registerUserIfNotExists_stores_unresolved_code:
  "findUserByReferral default_db ''zzzzzz'' = None \<and>
   (case registerUserIfNotExists default_db carol (Some ''zzzzzz'') ''cccccc'' ''t0'' of
      (d', u) \<Rightarrow> referredBy (users d' ! u) = Some ''zzzzzz'')"
  by (simp add: registerUserIfNotExists_def db_read_def saveDB_def findUserById_def
        findUserByReferral_def default_db_def carol_def)

text \<open>
  C8, amended. When \<^verbatim>\<open>registerUserIfNotExists\<close> creates a user (no user has the sender's
  id), the new record is appended, and its \<open>referredBy\<close> is the supplied referral code
  whenever a non-empty code is supplied, whether or not any user has that code; it is null
  only when no code or the empty string is supplied. The balance starts at 0 and the
  referral code is the generated one.
\<close>

theorem registerUserIfNotExists_referredBy:
  assumes "findUserById d (from_id c) = None"
  shows "case registerUserIfNotExists d c referral code now of
     (d', u) \<Rightarrow>
       u = length (users d)
       \<and> users d' = users d @ [users d' ! u]
       \<and> referredBy (users d' ! u) = (if truthy referral then referral else None)
       \<and> u_id (users d' ! u) = from_id c
       \<and> referralCode (users d' ! u) = code
       \<and> balance (users d' ! u) = Num 0
       \<and> pendingPurchases d' = pendingPurchases d \<and> withdraws d' = withdraws d"
  using assms
  by (simp add: registerUserIfNotExists_def db_read_def saveDB_def)

theorem registerUserIfNotExists_referredBy_witness:
  "findUserById sample_db (from_id carol) = None \<and>
   findUserByReferral sample_db ''zzzzzz'' = None \<and>
   (case registerUserIfNotExists sample_db carol (Some ''zzzzzz'') ''cccccc'' ''t8'' of
     (d', u) \<Rightarrow> u = 2 \<and> referredBy (users d' ! u) = Some ''zzzzzz'')"
  using registerUserIfNotExists_referredBy [where d = sample_db and c = carol
      and referral = "Some ''zzzzzz''" and code = "''cccccc''" and now = "''t8''"]
  by (simp add: findUserById_def findUserByReferral_def sample_db_def ann_def bob_def carol_def
        split: prod.splits)

subsection \<open>Purchases\<close>

text \<open>
  C7. When \<^verbatim>\<open>addPendingPurchase(userId, package)\<close> and then
  \<^verbatim>\<open>confirmPurchase(userId, package)\<close> succeed (the user exists and \<^verbatim>\<open>PACKAGES[package]\<close> is
  truthy), the first appends one entry for the pair, and after the second the pending
  purchases are the entries that were there before the first call and are for another user
  or another package, in their order and unmodified; no entry for the pair is left.
\<close>

theorem confirmPurchase_removes_pending:
  assumes "findUserById d userId = Some user"
    and "\<not> is_falsy (PACKAGES_get packageType)"
  shows "case addPendingPurchase d userId packageType memo pid now of
     (d1, r1) \<Rightarrow>
       (case confirmPurchase d1 userId packageType now' of
          (d2, r2) \<Rightarrow>
            r1 = Inr \<lparr>p_id = pid, p_userId = userId, p_package = packageType,
                      p_note = memo, p_createdAt = now\<rparr>
            \<and> pendingPurchases d1 = pendingPurchases d @
                 [\<lparr>p_id = pid, p_userId = userId, p_package = packageType,
                   p_note = memo, p_createdAt = now\<rparr>]
            \<and> r2 = Inr user
            \<and> pendingPurchases d2 =
                 filter (\<lambda>p. \<not> (p_userId p = userId \<and> p_package p = packageType))
                   (pendingPurchases d)
            \<and> \<not> list_ex (\<lambda>p. p_userId p = userId \<and> p_package p = packageType)
                   (pendingPurchases d2))"
  using assms
  by (simp add: addPendingPurchase_def confirmPurchase_def db_read_def saveDB_def
      findUserById_def Let_def list_ex_iff)

theorem confirmPurchase_removes_pending_witness:
  "findUserById sample_db 2 = Some 1 \<and> \<not> is_falsy (PACKAGES_get ''VIP'') \<and>
   (case addPendingPurchase sample_db 2 ''VIP'' ''again'' ''p0000004'' ''t8'' of
     (d1, r1) \<Rightarrow>
       (case confirmPurchase d1 2 ''VIP'' ''t9'' of
          (d2, r2) \<Rightarrow>
            length (pendingPurchases d1) = 4
            \<and> pendingPurchases d2 = [sample_pending ! 1, sample_pending ! 2]))"
  using confirmPurchase_removes_pending [where d = sample_db and userId = 2 and user = 1
      and packageType = "''VIP''" and memo = "''again''" and pid = "''p0000004''"
      and now = "''t8''" and now' = "''t9''"]
  by (simp add: findUserById_def sample_db_def ann_def bob_def sample_pending_def
      PACKAGES_get_def PACKAGES_def split: prod.splits)

text \<open>Setting the package of a user changes no balance.\<close>

lemma map_balance_update:
  "map balance (us[i := (us ! i)\<lparr>package := p, packageConfirmedAt := t\<rparr>]) = map balance us"
proof (rule nth_equalityI)
  show "length (map balance (us[i := (us ! i)\<lparr>package := p, packageConfirmedAt := t\<rparr>])) =
        length (map balance us)"
    by simp
next
  fix k
  assume "k < length (map balance (us[i := (us ! i)\<lparr>package := p, packageConfirmedAt := t\<rparr>]))"
  then show "map balance (us[i := (us ! i)\<lparr>package := p, packageConfirmedAt := t\<rparr>]) ! k =
             map balance us ! k"
    by (cases "k = i") simp_all
qed

text \<open>
  C6. \<^verbatim>\<open>confirmPurchase\<close> for the package VIP on an existing user \<open>u\<close> succeeds. If
  \<open>u.referredBy\<close> is the referral code of some user, the first such user \<open>ref\<close>, with a
  balance \<open>n\<close> for which \<open>n + 500\<close> is a safe integer, gets the balance \<open>n + 500\<close>, and every
  other balance is as before. If \<open>u.referredBy\<close> is null or the code of no user, every
  balance is as before. A stored \<open>referredBy\<close> is never the empty string (registration
  stores null for it), which is the second premise.
\<close>

theorem confirmPurchase_VIP_commission:
  assumes "findUserById d userId = Some user"
    and "referredBy (users d ! user) \<noteq> Some []"
  shows "snd (confirmPurchase d userId ''VIP'' now) = Inr user
    \<and> (referredBy (users d ! user) = Some code \<and> findUserByReferral d code = Some ref
        \<and> balance (users d ! ref) = Num n \<and> \<bar>n + 500\<bar> \<le> MAX_SAFE_INTEGER \<longrightarrow>
          map balance (users (fst (confirmPurchase d userId ''VIP'' now))) =
            (map balance (users d))[ref := Num (n + 500)])
    \<and> (referredBy (users d ! user) = None
        \<or> (referredBy (users d ! user) = Some code \<and> findUserByReferral d code = None) \<longrightarrow>
          map balance (users (fst (confirmPurchase d userId ''VIP'' now))) =
            map balance (users d))"
proof -
  from assms(1) have u: "user < length (users d)"
    by (simp add: findUserById_def find_ref_Some)
  let ?us1 = "(users d)[user := (users d ! user)
                \<lparr>package := Some ''VIP'', packageConfirmedAt := Some now\<rparr>]"
  have f: "find_ref (\<lambda>u. referralCode u = c) ?us1 = find_ref (\<lambda>u. referralCode u = c) (users d)"
    for c
    using u by (simp add: find_ref_update)
  have r: "referredBy (?us1 ! user) = referredBy (users d ! user)"
    using u by simp
  have p: "PACKAGES_get ''VIP'' = Own 3500 500"
    by (simp add: PACKAGES_get_def PACKAGES_def)
  have ok: "snd (confirmPurchase d userId ''VIP'' now) = Inr user"
    using assms(1) p by (simp add: confirmPurchase_def db_read_def Let_def)
  have credited: "map balance (users (fst (confirmPurchase d userId ''VIP'' now))) =
        (map balance (users d))[ref := Num (n + 500)]"
    if c: "referredBy (users d ! user) = Some code"
      and fr: "findUserByReferral d code = Some ref"
      and b: "balance (users d ! ref) = Num n"
      and s: "\<bar>n + 500\<bar> \<le> MAX_SAFE_INTEGER"
  proof -
    from c assms(2) have ne: "code \<noteq> []" by auto
    from fr have lt: "ref < length (users d)"
      by (simp add: findUserByReferral_def find_ref_Some)
    have b1: "balance (?us1 ! ref) = Num n"
      using u lt b by (simp add: nth_list_update)
    have m: "(map balance (users d))[user := balance (users d ! user)] = map balance (users d)"
      using u by (metis list_update_id nth_map)
    from fr have fr': "find_ref (\<lambda>u. referralCode u = code) (users d) = Some ref"
      by (simp add: findUserByReferral_def)
    show ?thesis
      using assms(1) u r p c ne f fr' b1 lt m s
      by (simp add: confirmPurchase_def db_read_def saveDB_def Let_def map_update round_double_exact)
  qed
  have unchanged: "map balance (users (fst (confirmPurchase d userId ''VIP'' now))) =
        map balance (users d)"
    if "referredBy (users d ! user) = None
        \<or> (referredBy (users d ! user) = Some code \<and> findUserByReferral d code = None)"
    using that assms u r p f
    by (auto simp: confirmPurchase_def db_read_def saveDB_def Let_def map_balance_update
        findUserByReferral_def)
  from ok credited unchanged show ?thesis
    by blast
qed

theorem confirmPurchase_VIP_commission_witness:
  "findUserById sample_db 2 = Some 1 \<and> referredBy (users sample_db ! 1) \<noteq> Some [] \<and>
   referredBy (users sample_db ! 1) = Some ''aaaaaa'' \<and>
   findUserByReferral sample_db ''aaaaaa'' = Some 0 \<and>
   balance (users sample_db ! 0) = Num 500 \<and> \<bar>500 + 500\<bar> \<le> MAX_SAFE_INTEGER \<and>
   snd (confirmPurchase sample_db 2 ''VIP'' ''t9'') = Inr 1 \<and>
   map balance (users (fst (confirmPurchase sample_db 2 ''VIP'' ''t9''))) = [Num 1000, Num 0]"
  using confirmPurchase_VIP_commission [where d = sample_db and userId = 2 and user = 1
      and now = "''t9''" and code = "''aaaaaa''" and ref = 0 and n = 500]
  by (simp add: findUserById_def findUserByReferral_def sample_db_def ann_def bob_def
      MAX_SAFE_INTEGER_def)

subsection \<open>Stored referral codes\<close>

text \<open>
  The premise on \<open>referredBy\<close> in C6 holds in every snapshot the ledger
  reaches: \<^verbatim>\<open>referralCode || null\<close> stores null for the empty string, and no operation
  assigns \<open>referredBy\<close> afterwards.
\<close>

lemma referredBy_update_balance:
  "list_all (\<lambda>u. referredBy u \<noteq> Some []) us \<Longrightarrow>
     list_all (\<lambda>u. referredBy u \<noteq> Some []) (us[i := (us ! i)\<lparr>balance := b\<rparr>])"
  by (cases "i < length us") (auto simp: list_all_length nth_list_update)

lemma referredBy_update_package:
  "list_all (\<lambda>u. referredBy u \<noteq> Some []) us \<Longrightarrow>
     list_all (\<lambda>u. referredBy u \<noteq> Some [])
       (us[i := (us ! i)\<lparr>package := p, packageConfirmedAt := t\<rparr>])"
  by (cases "i < length us") (auto simp: list_all_length nth_list_update)

lemma truthy_not_empty: "truthy referral \<Longrightarrow> referral \<noteq> Some []"
  by (cases referral) simp_all

lemma apply_operation_referredBy:
  assumes "list_all (\<lambda>u. referredBy u \<noteq> Some []) (users d)"
  shows "list_all (\<lambda>u. referredBy u \<noteq> Some []) (users (apply_operation d op))"
proof (cases op)
  case (Register c referral code now)
  with assms show ?thesis
    by (simp add: registerUserIfNotExists_def db_read_def saveDB_def truthy_not_empty
        split: option.splits)
next
  case (ConfirmPurchase userId packageType now)
  with assms show ?thesis
    by (simp add: confirmPurchase_def db_read_def saveDB_def Let_def referredBy_update_balance
        referredBy_update_package split: option.splits)
next
  case (AddPendingPurchase userId packageType memo pid now)
  with assms show ?thesis
    by (simp add: addPendingPurchase_def db_read_def saveDB_def Let_def split: option.splits)
next
  case (CreateWithdrawDynamic user amnt pm rid now)
  with assms show ?thesis
    by (simp add: createWithdrawRequestDynamic_def db_read_def saveDB_def Let_def
        referredBy_update_balance)
next
  case (CreateWithdraw user rid now)
  with assms show ?thesis
    by (simp add: createWithdrawRequest_def db_read_def saveDB_def Let_def
        referredBy_update_balance)
next
  case (Approve withdrawId memo now)
  with assms show ?thesis
    by (simp add: approveWithdrawRequest_def db_read_def saveDB_def Let_def split: option.splits)
next
  case (Reject withdrawId reason now)
  with assms show ?thesis
    by (simp add: rejectWithdrawRequest_def db_read_def saveDB_def Let_def
        referredBy_update_balance split: option.splits)
qed

lemma run_referredBy:
  "list_all (\<lambda>u. referredBy u \<noteq> Some []) (users d) \<Longrightarrow>
     list_all (\<lambda>u. referredBy u \<noteq> Some []) (users (run d ops))"
proof (induction ops arbitrary: d)
  case Nil
  then show ?case by (simp add: run_def)
next
  case (Cons op ops)
  from Cons.IH [OF apply_operation_referredBy [OF Cons.prems]] show ?case
    by (simp add: run_def)
qed

lemma reachable_referredBy:
  "list_all (\<lambda>u. referredBy u \<noteq> Some []) (users (run default_db ops))"
  by (rule run_referredBy) (simp add: default_db_def)

subsection \<open>Creating a withdrawal\<close>

text \<open>
  C4, as the spec states it, fails: the checks run in the order amount, balance, format, so
  an amount above the balance that is not a multiple of 100 is answered "Insufficient
  balance", where the claim asks for \<open>InvalidAmount\<close>. Bob has balance 0 and asks for 150.
\<close>

theorem createWithdrawRequestDynamic_insufficient_before_format:
  "js_gt (Num 150) (balance bob) \<and> js_rem 150 100 \<noteq> 0 \<and>
   createWithdrawRequestDynamic sample_db bob 150 ''CBE'' ''w0000003'' ''t8''
     = (sample_db, bob, Inl InsufficientBalance) \<and>
   Inl InsufficientBalance \<noteq> (Inl InvalidAmount :: error + withdraw) \<and>
   Inl InsufficientBalance \<noteq> (Inl BadAmountFormat :: error + withdraw)"
  by (simp add: createWithdrawRequestDynamic_def db_read_def bob_def js_rem_def)

text \<open>
  C4, amended. For every user object and integer amount, \<^verbatim>\<open>createWithdrawRequestDynamic\<close>
  fails with "Invalid amount" when the amount is 0 or negative; otherwise with
  "Insufficient balance" when the amount is above the balance; otherwise with
  "Amount must end with 00" when the amount is not a multiple of 100. Every failure leaves
  the whole snapshot, so the withdrawals, and the user object with its balance as they
  were.
\<close>

theorem createWithdrawRequestDynamic_failures:
  "(amnt \<le> 0 \<longrightarrow>
      createWithdrawRequestDynamic d user amnt pm rid now = (d, user, Inl InvalidAmount))
   \<and> (0 < amnt \<and> js_gt (Num amnt) (balance user) \<longrightarrow>
      createWithdrawRequestDynamic d user amnt pm rid now = (d, user, Inl InsufficientBalance))
   \<and> (0 < amnt \<and> \<not> js_gt (Num amnt) (balance user) \<and> js_rem amnt 100 \<noteq> 0 \<longrightarrow>
      createWithdrawRequestDynamic d user amnt pm rid now = (d, user, Inl BadAmountFormat))
   \<and> (case createWithdrawRequestDynamic d user amnt pm rid now of
        (d', user', Inl e) \<Rightarrow> d' = d \<and> user' = user
      | (d', user', Inr request) \<Rightarrow>
          0 < amnt \<and> \<not> js_gt (Num amnt) (balance user) \<and> js_rem amnt 100 = 0)"
  by (simp add: createWithdrawRequestDynamic_def db_read_def saveDB_def Let_def)

theorem createWithdrawRequestDynamic_failures_witness:
  "createWithdrawRequestDynamic sample_db ann (- 100) ''CBE'' ''w0000003'' ''t8''
     = (sample_db, ann, Inl InvalidAmount) \<and>
   createWithdrawRequestDynamic sample_db ann 600 ''CBE'' ''w0000003'' ''t8''
     = (sample_db, ann, Inl InsufficientBalance) \<and>
   js_gt (Num 650) (balance ann) \<and>
   createWithdrawRequestDynamic sample_db ann 650 ''CBE'' ''w0000003'' ''t8''
     = (sample_db, ann, Inl InsufficientBalance) \<and>
   createWithdrawRequestDynamic sample_db ann 250 ''CBE'' ''w0000003'' ''t8''
     = (sample_db, ann, Inl BadAmountFormat)"
  using createWithdrawRequestDynamic_failures [where d = sample_db and user = ann and amnt = 650
      and pm = "''CBE''" and rid = "''w0000003''" and now = "''t8''"]
  by (simp add: createWithdrawRequestDynamic_def db_read_def ann_def js_rem_def)

subsection \<open>The full-balance withdrawal\<close>

text \<open>\<^verbatim>\<open>createWithdrawRequest\<close> has no failing branch: it appends a pending request that
  carries the id and the balance of the object it is given, and sets the balance of that
  object to 0. The users of the snapshot are as they were.\<close>

lemma createWithdrawRequest_effect:
  "createWithdrawRequest d user rid now =
     (d\<lparr>withdraws := withdraws d @
          [\<lparr>w_id = rid, w_userId = u_id user, amount = balance user, paymentMethod = None,
            status = Pending, w_note = None, w_createdAt = now, updatedAt = now\<rparr>]\<rparr>,
      user\<lparr>balance := Num 0\<rparr>,
      \<lparr>w_id = rid, w_userId = u_id user, amount = balance user, paymentMethod = None,
        status = Pending, w_note = None, w_createdAt = now, updatedAt = now\<rparr>)"
  by (simp add: createWithdrawRequest_def db_read_def saveDB_def Let_def)

text \<open>
  C10. The claim asks that the full-balance withdrawal appends a pending request with the
  user's balance as its amount and sets the user's balance to 0. Ann is the stored user
  with id 1 and balance 500. The call for her appends the pending request of 500, and her
  stored balance is 500 after it: the line
  \<^verbatim>\<open>user.balance = 0; // reset user balance\<close> assigns to the object that was fetched before
  the function's \<^verbatim>\<open>db.read()\<close>, which the saved snapshot does not contain.
\<close>

theorem createWithdrawRequest_balance_not_reset:
  "findUserById sample_db 1 = Some 0 \<and> users sample_db ! 0 = ann \<and> balance ann = Num 500 \<and>
   (case createWithdrawRequest sample_db ann ''w0000003'' ''t8'' of
      (d', user', request) \<Rightarrow>
        status request = Pending \<and> amount request = Num 500 \<and> w_userId request = 1
        \<and> withdraws d' = sample_withdraws @ [request]
        \<and> balance user' = Num 0
        \<and> users d' = users sample_db
        \<and> balance (users d' ! 0) = Num 500
        \<and> balance (users d' ! 0) \<noteq> Num 0)"
  by (simp add: createWithdrawRequest_effect findUserById_def sample_db_def ann_def)

subsection \<open>Resolving a withdrawal\<close>

text \<open>An update of a pending request does not touch a resolved one, so no ledger
  operation, and no sequence of them, changes a request that is approved or rejected.\<close>

lemma update_pending_keeps_resolved:
  "status (ws ! j) = Pending \<Longrightarrow> status (ws ! k) \<noteq> Pending \<Longrightarrow> ws[j := w] ! k = ws ! k"
  by (cases "j = k") auto

lemma apply_operation_resolved:
  assumes "k < length (withdraws d)" and "status (withdraws d ! k) \<noteq> Pending"
  shows "k < length (withdraws (apply_operation d op))
     \<and> withdraws (apply_operation d op) ! k = withdraws d ! k"
proof (cases op)
  case (Register c referral code now)
  then show ?thesis using assms
    by (simp add: registerUserIfNotExists_def db_read_def saveDB_def split: option.splits)
next
  case (ConfirmPurchase userId packageType now)
  then show ?thesis using assms
    by (simp add: confirmPurchase_def db_read_def saveDB_def Let_def split: option.splits)
next
  case (AddPendingPurchase userId packageType memo pid now)
  then show ?thesis using assms
    by (simp add: addPendingPurchase_def db_read_def saveDB_def Let_def split: option.splits)
next
  case (CreateWithdrawDynamic user amnt pm rid now)
  then show ?thesis using assms
    by (simp add: createWithdrawRequestDynamic_def db_read_def saveDB_def Let_def nth_append)
next
  case (CreateWithdraw user rid now)
  then show ?thesis using assms
    by (simp add: createWithdrawRequest_def db_read_def saveDB_def Let_def nth_append)
next
  case (Approve withdrawId memo now)
  then show ?thesis using assms
    by (auto simp: approveWithdrawRequest_def db_read_def saveDB_def Let_def
        update_pending_keeps_resolved split: option.splits)
next
  case (Reject withdrawId reason now)
  then show ?thesis using assms
    by (auto simp: rejectWithdrawRequest_def db_read_def saveDB_def Let_def
        update_pending_keeps_resolved split: option.splits)
qed

lemma run_resolved:
  "k < length (withdraws d) \<Longrightarrow> status (withdraws d ! k) \<noteq> Pending \<Longrightarrow>
     k < length (withdraws (run d ops)) \<and> withdraws (run d ops) ! k = withdraws d ! k"
proof (induction ops arbitrary: d)
  case Nil
  then show ?case by (simp add: run_def)
next
  case (Cons op ops)
  from apply_operation_resolved [OF Cons.prems]
  have s: "k < length (withdraws (apply_operation d op))"
    "withdraws (apply_operation d op) ! k = withdraws d ! k"
    by simp_all
  with Cons.prems(2) have "status (withdraws (apply_operation d op) ! k) \<noteq> Pending"
    by simp
  from Cons.IH [OF s(1) this] s(2) show ?case
    by (simp add: run_def)
qed

text \<open>
  C3. A request that is no longer pending is final. If the id resolves to a request whose
  status is not pending, \<^verbatim>\<open>approveWithdrawRequest\<close> and \<^verbatim>\<open>rejectWithdrawRequest\<close> both return
  "Not pending" and the snapshot they were given, unchanged. And whatever ledger operations
  run afterwards, the request stays at its position with every field as it was, its status
  included: the status leaves "pending" at most once.
\<close>

theorem resolved_request_is_final:
  assumes "find_ref (\<lambda>x. w_id x = withdrawId) (withdraws d) = Some k"
    and "status (withdraws d ! k) \<noteq> Pending"
  shows "approveWithdrawRequest d withdrawId memo now = (d, Inl RequestNotPending)
     \<and> rejectWithdrawRequest d withdrawId reason now = (d, Inl RequestNotPending)
     \<and> k < length (withdraws (run d ops))
     \<and> withdraws (run d ops) ! k = withdraws d ! k"
proof -
  from assms(1) have "k < length (withdraws d)"
    by (simp add: find_ref_Some)
  from run_resolved [OF this assms(2)] assms show ?thesis
    by (simp add: approveWithdrawRequest_def rejectWithdrawRequest_def db_read_def)
qed

theorem resolved_request_is_final_witness:
  "find_ref (\<lambda>x. w_id x = ''w0000002'') (withdraws sample_db) = Some 1 \<and>
   status (withdraws sample_db ! 1) = Approved \<and>
   approveWithdrawRequest sample_db ''w0000002'' ''again'' ''t8'' = (sample_db, Inl RequestNotPending) \<and>
   rejectWithdrawRequest sample_db ''w0000002'' ''no'' ''t8'' = (sample_db, Inl RequestNotPending) \<and>
   withdraws (run sample_db [Reject ''w0000002'' ''no'' ''t8'', Reject ''w0000001'' ''no'' ''t9'',
       Approve ''w0000002'' ''yes'' ''t10'']) ! 1 = sample_withdraws ! 1"
  using resolved_request_is_final [where d = sample_db and withdrawId = "''w0000002''" and k = 1
      and memo = "''again''" and reason = "''no''" and now = "''t8''"
      and ops = "[Reject ''w0000002'' ''no'' ''t8'', Reject ''w0000001'' ''no'' ''t9'',
       Approve ''w0000002'' ''yes'' ''t10'']"]
  by (simp add: sample_db_def sample_withdraws_def)

text \<open>
  C2. Let the id resolve to a pending request \<open>w\<close> whose \<open>userId\<close> is the id of a stored
  user, with a balance \<open>b\<close> and an amount \<open>a\<close> whose sum is a safe integer. Rejecting \<open>w\<close>
  sets that user's balance to \<open>b + a\<close> and changes no other user; \<open>w\<close> becomes rejected, so a
  second rejection returns "Not pending" and changes nothing: the amount is added once.
  Approving \<open>w\<close> leaves the list of users as it is, and a later rejection is refused too.
\<close>

theorem reject_refunds_once_approve_keeps_balances:
  assumes "find_ref (\<lambda>x. w_id x = withdrawId) (withdraws d) = Some k"
    and "status (withdraws d ! k) = Pending"
    and "findUserById d (w_userId (withdraws d ! k)) = Some user"
    and "balance (users d ! user) = Num b"
    and "amount (withdraws d ! k) = Num a"
    and "\<bar>b + a\<bar> \<le> MAX_SAFE_INTEGER"
  shows "(case rejectWithdrawRequest d withdrawId reason now of
       (d', r) \<Rightarrow>
         users d' = (users d)[user := (users d ! user)\<lparr>balance := Num (b + a)\<rparr>]
         \<and> r = Inr ((withdraws d ! k)\<lparr>status := Rejected, updatedAt := now, w_note := Some reason\<rparr>)
         \<and> withdraws d' = (withdraws d)[k := (withdraws d ! k)
              \<lparr>status := Rejected, updatedAt := now, w_note := Some reason\<rparr>]
         \<and> rejectWithdrawRequest d' withdrawId reason' now' = (d', Inl RequestNotPending))
    \<and> (case approveWithdrawRequest d withdrawId memo now of
       (d', r) \<Rightarrow>
         users d' = users d
         \<and> r = Inr ((withdraws d ! k)\<lparr>status := Approved, updatedAt := now, w_note := Some memo\<rparr>)
         \<and> withdraws d' = (withdraws d)[k := (withdraws d ! k)
              \<lparr>status := Approved, updatedAt := now, w_note := Some memo\<rparr>]
         \<and> rejectWithdrawRequest d' withdrawId reason' now' = (d', Inl RequestNotPending))"
proof -
  from assms(1) have k: "k < length (withdraws d)"
    by (simp add: find_ref_Some)
  have f: "find_ref (\<lambda>x. w_id x = withdrawId)
       ((withdraws d)[k := (withdraws d ! k)\<lparr>status := s, updatedAt := t, w_note := n\<rparr>]) = Some k"
    for s t n
    using k assms(1) by (simp add: find_ref_update)
  show ?thesis
    using assms k f
    by (simp add: rejectWithdrawRequest_def approveWithdrawRequest_def db_read_def saveDB_def
        Let_def findUserById_def round_double_exact)
qed

theorem reject_refunds_once_approve_keeps_balances_witness:
  "find_ref (\<lambda>x. w_id x = ''w0000001'') (withdraws sample_db) = Some 0 \<and>
   status (withdraws sample_db ! 0) = Pending \<and>
   findUserById sample_db (w_userId (withdraws sample_db ! 0)) = Some 0 \<and>
   balance (users sample_db ! 0) = Num 500 \<and> amount (withdraws sample_db ! 0) = Num 200 \<and>
   \<bar>500 + 200\<bar> \<le> MAX_SAFE_INTEGER \<and>
   (case rejectWithdrawRequest sample_db ''w0000001'' ''no'' ''t8'' of
      (d', r) \<Rightarrow> map balance (users d') = [Num 700, Num 0]
         \<and> rejectWithdrawRequest d' ''w0000001'' ''no'' ''t9'' = (d', Inl RequestNotPending)) \<and>
   (case approveWithdrawRequest sample_db ''w0000001'' ''ok'' ''t8'' of
      (d', r) \<Rightarrow> map balance (users d') = [Num 500, Num 0])"
  using reject_refunds_once_approve_keeps_balances [where d = sample_db
      and withdrawId = "''w0000001''" and k = 0 and user = 0 and reason = "''no''"
      and now = "''t8''" and reason' = "''no''" and now' = "''t9''" and memo = "''ok''"
      and b = 500 and a = 200]
  by (simp add: sample_db_def sample_withdraws_def findUserById_def ann_def bob_def
      MAX_SAFE_INTEGER_def split: prod.splits)

subsection \<open>The withdraw session\<close>

text \<open>The three texts of the session, as the handler reads them.\<close>

lemma text_200: "toLowerCase (trim ''200'') = ''200''" "parseInt ''200'' = Num 200"
  by (simp_all add: toLowerCase_def trim_def is_space_def lower_char_def parseInt_def
      is_digit_def digit_of_def digits_value_def round_double_exact MAX_SAFE_INTEGER_def)

lemma text_telebirr:
  "toLowerCase (trim ''telebirr'') = ''telebirr''" "choose_method ''telebirr'' = Some ''Telebirr''"
  by (simp_all add: toLowerCase_def trim_def is_space_def lower_char_def choose_method_def)

lemma text_cancel: "toLowerCase (trim ''cancel'') = ''cancel''"
  by (simp add: toLowerCase_def trim_def is_space_def lower_char_def)

text \<open>
  For a stored user with balance 500, the withdraw command followed by the texts "200" and
  "telebirr" answers with the prompt for the amount, the prompt for the payment method and
  the confirmation, and the text "telebirr" appends exactly one request (amount 200,
  payment method "Telebirr", status pending, for this user) and deletes the session. The
  list of users is as it was before the session: the amount is subtracted from the object
  the handler fetched, which the snapshot loaded by \<^verbatim>\<open>createWithdrawRequestDynamic\<close> does not
  contain. The withdraw command followed by "cancel" leaves the whole snapshot as it was
  and deletes the session.
\<close>

lemma withdraw_session_effect:
  assumes "findUserById (data b) uid = Some user"
    and "balance (users (data b) ! user) = Num 500"
  shows "(case withdraw_command b uid of
      (b1, r1) \<Rightarrow>
        (case on_text b1 uid ''200'' rid_a now_a of
           (b2, r2) \<Rightarrow>
             (case on_text b2 uid ''telebirr'' rid now of
                (b3, r3) \<Rightarrow>
                  r1 = EnterAmount \<and> r2 = Some ChooseMethod
                  \<and> data b2 = data b
                  \<and> r3 = Some (Submitted
                       \<lparr>w_id = rid, w_userId = uid, amount = Num 200,
                        paymentMethod = Some ''Telebirr'', status = Pending, w_note = None,
                        w_createdAt = now, updatedAt = now\<rparr>)
                  \<and> withdraws (data b3) = withdraws (data b) @
                       [\<lparr>w_id = rid, w_userId = uid, amount = Num 200,
                         paymentMethod = Some ''Telebirr'', status = Pending, w_note = None,
                         w_createdAt = now, updatedAt = now\<rparr>]
                  \<and> users (data b3) = users (data b)
                  \<and> pendingPurchases (data b3) = pendingPurchases (data b)
                  \<and> userSessions b3 uid = None)))
    \<and> (case withdraw_command b uid of
      (b1, r1) \<Rightarrow>
        (case on_text b1 uid ''cancel'' rid now of
           (b2, r2) \<Rightarrow>
             r1 = EnterAmount \<and> r2 = Some Canceled \<and> data b2 = data b
             \<and> userSessions b2 uid = None))"
proof -
  from assms(1) have u: "user < length (users (data b))" "u_id (users (data b) ! user) = uid"
    using find_ref_Some [of "\<lambda>u. u_id u = uid" "users (data b)" user]
    by (simp_all add: findUserById_def)
  have r: "js_rem 200 100 = 0"
    by (simp add: js_rem_def)
  show ?thesis
    using assms u r
    by (simp add: withdraw_command_def on_text_def db_read_def saveDB_def MIN_WITHDRAW_def
        js_lt_def text_200 text_telebirr text_cancel createWithdrawRequestDynamic_def Let_def)
qed

text \<open>
  C5. The claim asks that the session "200", "telebirr" of a user with balance 500 creates
  the request and leaves the balance at 300. Ann has the balance 500. Her session creates
  the one pending request of 200 by Telebirr, and her stored balance is 500 after it, as
  before: the line \<^verbatim>\<open>user.balance -= amount; // deduct requested amount\<close> does not reach the
  store. Her session with "cancel" changes nothing, as the claim says.
\<close>

theorem withdraw_session_balance_not_deducted:
  "findUserById (data sample_bot) 1 = Some 0 \<and> balance (users (data sample_bot) ! 0) = Num 500 \<and>
   (case withdraw_command sample_bot 1 of
      (b1, r1) \<Rightarrow>
        (case on_text b1 1 ''200'' ''x'' ''t8'' of
           (b2, r2) \<Rightarrow>
             (case on_text b2 1 ''telebirr'' ''w0000003'' ''t9'' of
                (b3, r3) \<Rightarrow>
                  r3 = Some (Submitted
                       \<lparr>w_id = ''w0000003'', w_userId = 1, amount = Num 200,
                        paymentMethod = Some ''Telebirr'', status = Pending, w_note = None,
                        w_createdAt = ''t9'', updatedAt = ''t9''\<rparr>)
                  \<and> withdraws (data b3) = sample_withdraws @
                       [\<lparr>w_id = ''w0000003'', w_userId = 1, amount = Num 200,
                         paymentMethod = Some ''Telebirr'', status = Pending, w_note = None,
                         w_createdAt = ''t9'', updatedAt = ''t9''\<rparr>]
                  \<and> balance (users (data b3) ! 0) = Num 500
                  \<and> balance (users (data b3) ! 0) \<noteq> Num 300))) \<and>
   (case withdraw_command sample_bot 1 of
      (b1, r1) \<Rightarrow>
        (case on_text b1 1 ''cancel'' ''w0000003'' ''t9'' of
           (b2, r2) \<Rightarrow> data b2 = sample_db))"
proof -
  have f: "findUserById (data sample_bot) 1 = Some 0"
    by (simp add: sample_bot_def sample_db_def findUserById_def ann_def)
  have b: "balance (users (data sample_bot) ! 0) = Num 500"
    by (simp add: sample_bot_def sample_db_def ann_def)
  from withdraw_session_effect [OF f b, where rid_a = "''x''" and now_a = "''t8''"
      and rid = "''w0000003''" and now = "''t9''"] f b
  show ?thesis
    by (auto simp: sample_bot_def sample_db_def ann_def split: prod.splits)
qed

subsection \<open>Balances\<close>

text \<open>
  C1. The claim asks that every balance is a non-negative integer after every sequence of
  ledger operations. The guard \<^verbatim>\<open>if (!PACKAGES[packageType])\<close> of \<^verbatim>\<open>confirmPurchase\<close> lets the
  keys through that \<^verbatim>\<open>PACKAGES\<close> inherits from \<^verbatim>\<open>Object.prototype\<close>; for those the commission
  is \<^verbatim>\<open>undefined\<close> and the referrer's balance becomes \<^verbatim>\<open>NaN\<close>. After Ann and Bob (referred by
  Ann) have registered, the snapshot is in order; confirming the package "constructor" for
  Bob succeeds and leaves Ann with the balance \<^verbatim>\<open>NaN\<close>.
\<close>

theorem confirmPurchase_inherited_key_breaks_balance:
  "balances_ok (run default_db
      [Register ann_ctx None ''aaaaaa'' ''t0'', Register bob_ctx (Some ''aaaaaa'') ''bbbbbb'' ''t1'']) \<and>
   confirmPurchase (run default_db
      [Register ann_ctx None ''aaaaaa'' ''t0'', Register bob_ctx (Some ''aaaaaa'') ''bbbbbb'' ''t1''])
      2 ''constructor'' ''t2''
    = (\<lparr>users = [ann\<lparr>balance := NaN\<rparr>,
                  bob\<lparr>package := Some ''constructor'', packageConfirmedAt := Some ''t2''\<rparr>],
        pendingPurchases = [], withdraws = []\<rparr>, Inr 1) \<and>
   \<not> nonneg (balance (users (run default_db
      [Register ann_ctx None ''aaaaaa'' ''t0'', Register bob_ctx (Some ''aaaaaa'') ''bbbbbb'' ''t1'',
       ConfirmPurchase 2 ''constructor'' ''t2'']) ! 0))"
  by (simp add: run_def default_db_def ann_ctx_def bob_ctx_def registerUserIfNotExists_def
      confirmPurchase_def findUserById_def db_read_def saveDB_def PACKAGES_get_def PACKAGES_def
      object_prototype_keys_def display_name_def balances_ok_def ann_def bob_def)

text \<open>
  Setting the inherited keys aside, no sequence of ledger operations makes a stored balance
  or the amount of a withdrawal negative or \<^verbatim>\<open>NaN\<close>.
\<close>

lemma list_all_update: "list_all P xs \<Longrightarrow> P x \<Longrightarrow> list_all P (xs[i := x])"
  by (induction xs arbitrary: i) (auto split: nat.splits)

lemma list_all_nth: "list_all P xs \<Longrightarrow> i < length xs \<Longrightarrow> P (xs ! i)"
  by (simp add: list_all_length)

lemma own_commission_nonneg: "PACKAGES_get key = Own p c \<Longrightarrow> 0 \<le> c"
  by (auto simp: PACKAGES_get_def PACKAGES_def split: if_splits)

lemma not_negative_round: "0 \<le> x \<Longrightarrow> not_negative (round_double x)"
  by (simp add: round_double_def Let_def)

lemma not_negative_or_zero: "not_negative b \<Longrightarrow> not_negative (or_zero b)"
  by (cases b) simp_all

lemma not_negative_add: "not_negative a \<Longrightarrow> not_negative b \<Longrightarrow> not_negative (js_add a b)"
  by (cases a; cases b) (simp_all add: not_negative_round)

lemma not_negative_credit:
  "not_negative b \<Longrightarrow> \<not> is_falsy p \<Longrightarrow> p \<noteq> Inherited \<Longrightarrow> (\<And>x c. p = Own x c \<Longrightarrow> 0 \<le> c) \<Longrightarrow>
     not_negative (credit b (commission_of p))"
  by (cases p) (simp_all add: not_negative_add not_negative_or_zero)

lemma never_negative_register:
  "never_negative d \<Longrightarrow> never_negative (fst (registerUserIfNotExists d c referral code now))"
  by (simp add: registerUserIfNotExists_def db_read_def saveDB_def never_negative_def
      split: option.splits)

lemma never_negative_addPending:
  "never_negative d \<Longrightarrow> never_negative (fst (addPendingPurchase d userId packageType memo pid now))"
  by (simp add: addPendingPurchase_def db_read_def saveDB_def never_negative_def Let_def
      split: option.splits)

lemma never_negative_dynamic:
  "never_negative d \<Longrightarrow>
     never_negative (fst (createWithdrawRequestDynamic d user amnt pm rid now))"
  by (simp add: createWithdrawRequestDynamic_def db_read_def saveDB_def Let_def
      never_negative_def)

lemma never_negative_legacy:
  "never_negative d \<Longrightarrow> not_negative (balance user) \<Longrightarrow>
     never_negative (fst (createWithdrawRequest d user rid now))"
  by (simp add: createWithdrawRequest_effect never_negative_def)

lemma never_negative_approve:
  assumes "never_negative d"
  shows "never_negative (fst (approveWithdrawRequest d withdrawId memo now))"
proof (cases "find_ref (\<lambda>x. w_id x = withdrawId) (withdraws d)")
  case None
  with assms show ?thesis
    by (simp add: approveWithdrawRequest_def db_read_def)
next
  case (Some k)
  then have "k < length (withdraws d)"
    by (simp add: find_ref_Some)
  with assms have "not_negative (amount (withdraws d ! k))"
    by (auto simp: never_negative_def list_all_length)
  with assms Some show ?thesis
    by (simp add: approveWithdrawRequest_def db_read_def saveDB_def Let_def never_negative_def
        list_all_update)
qed

lemma never_negative_reject:
  assumes "never_negative d"
  shows "never_negative (fst (rejectWithdrawRequest d withdrawId reason now))"
proof (cases "find_ref (\<lambda>x. w_id x = withdrawId) (withdraws d)")
  case None
  with assms show ?thesis
    by (simp add: rejectWithdrawRequest_def db_read_def)
next
  case (Some k)
  then have "k < length (withdraws d)"
    by (simp add: find_ref_Some)
  with assms have a: "not_negative (amount (withdraws d ! k))"
    by (auto simp: never_negative_def list_all_length)
  show ?thesis
  proof (cases "findUserById d (w_userId (withdraws d ! k))")
    case None
    with assms Some a show ?thesis
      by (simp add: rejectWithdrawRequest_def db_read_def saveDB_def Let_def never_negative_def
          list_all_update)
  next
    case (Some user)
    then have "user < length (users d)"
      by (simp add: findUserById_def find_ref_Some)
    with assms have "not_negative (balance (users d ! user))"
      by (auto simp: never_negative_def list_all_length)
    with assms \<open>find_ref (\<lambda>x. w_id x = withdrawId) (withdraws d) = Some k\<close> a Some show ?thesis
      by (simp add: rejectWithdrawRequest_def db_read_def saveDB_def Let_def never_negative_def
          list_all_update not_negative_add not_negative_or_zero)
  qed
qed

lemma never_negative_confirm:
  assumes "never_negative d" and "PACKAGES_get packageType \<noteq> Inherited"
  shows "never_negative (fst (confirmPurchase d userId packageType now))"
proof (cases "findUserById d userId")
  case None
  with assms show ?thesis
    by (simp add: confirmPurchase_def db_read_def)
next
  case (Some user)
  then have u: "user < length (users d)"
    by (simp add: findUserById_def find_ref_Some)
  let ?us1 = "(users d)[user := (users d ! user)
                \<lparr>package := Some packageType, packageConfirmedAt := Some now\<rparr>]"
  from assms(1) u have "not_negative (balance (users d ! user))"
    by (auto simp: never_negative_def list_all_length)
  with assms(1) have us1: "list_all (\<lambda>u. not_negative (balance u)) ?us1"
    by (simp add: never_negative_def list_all_update)
  show ?thesis
  proof (cases "is_falsy (PACKAGES_get packageType)")
    case True
    with assms Some show ?thesis
      by (simp add: confirmPurchase_def db_read_def)
  next
    case False
    have c: "not_negative (credit (balance (?us1 ! ref)) (commission_of (PACKAGES_get packageType)))"
      if "ref < length ?us1" for ref
      using list_all_nth [OF us1 that] False assms(2) own_commission_nonneg
      by (intro not_negative_credit) auto
    have "list_all (\<lambda>u. not_negative (balance u))
        (case find_ref (\<lambda>u. referralCode u = code) ?us1 of
           Some ref \<Rightarrow> ?us1[ref := (?us1 ! ref)
               \<lparr>balance := credit (balance (?us1 ! ref)) (commission_of (PACKAGES_get packageType))\<rparr>]
         | None \<Rightarrow> ?us1)" for code
      using us1 c by (auto split: option.splits simp: list_all_update dest: find_ref_Some)
    with assms(1) Some False us1 show ?thesis
      by (simp add: confirmPurchase_def db_read_def saveDB_def Let_def never_negative_def)
  qed
qed

lemma apply_operation_never_negative:
  assumes "never_negative d" and "own_package_key op"
  shows "never_negative (apply_operation d op)"
proof (cases op)
  case (CreateWithdraw user rid now)
  show ?thesis
  proof (cases "user < length (users d)")
    case True
    with assms(1) have "not_negative (balance (users d ! user))"
      by (auto simp: never_negative_def list_all_length)
    with assms(1) True CreateWithdraw show ?thesis
      by (simp add: never_negative_legacy)
  next
    case False
    with assms(1) CreateWithdraw show ?thesis by simp
  qed
qed (use assms in \<open>simp_all add: never_negative_register never_negative_confirm
      never_negative_addPending never_negative_dynamic never_negative_approve
      never_negative_reject\<close>)

lemma run_never_negative:
  "never_negative d \<Longrightarrow> list_all own_package_key ops \<Longrightarrow> never_negative (run d ops)"
proof (induction ops arbitrary: d)
  case Nil
  then show ?case by (simp add: run_def)
next
  case (Cons op ops)
  from Cons.prems have "never_negative (apply_operation d op)"
    by (simp add: apply_operation_never_negative)
  from Cons.IH [OF this] Cons.prems(2) show ?case
    by (simp add: run_def)
qed

end
